theory Spec2Isabelle
  imports Complex_Main
begin

section \<open>JavaScript values used by both components\<close>

text \<open>
  A JavaScript \<^verbatim>\<open>number\<close> is modelled by a real number, or by one of the three
  special values. Only the frame budget of the cube camera can meaningfully be
  \<^verbatim>\<open>Infinity\<close>; all geometric quantities are finite reals.
\<close>

datatype number = Num real | Infinity | NegInfinity | NaN

text \<open>\<^verbatim>\<open>count < frames\<close> for a finite left operand.\<close>

fun js_less :: "real \<Rightarrow> number \<Rightarrow> bool" where
  "js_less c (Num k) = (c < k)"
| "js_less c Infinity = True"
| "js_less c NegInfinity = False"
| "js_less c NaN = False"

text \<open>
  \<^verbatim>\<open>a || b\<close> where \<^verbatim>\<open>a\<close> is an object or \<^verbatim>\<open>undefined\<close>: objects are truthy.
\<close>

fun or_else :: "'a option \<Rightarrow> 'a option \<Rightarrow> 'a option" where
  "or_else (Some a) b = Some a"
| "or_else None b = b"

text \<open>A destructuring default \<^verbatim>\<open>{ x = d }\<close>: used when the property is undefined.\<close>

fun default_to :: "'a \<Rightarrow> 'a option \<Rightarrow> 'a" where
  "default_to d None = d"
| "default_to d (Some v) = v"

text \<open>How a call ends: it returns, or an exception thrown below it propagates.\<close>

datatype completion = Returned | Thrown


section \<open>three.js primitives called by Fisheye\<close>

text \<open>
  The rendering engine (three.js) is not part of the repository. The operations of its
  math classes that \<^verbatim>\<open>Fisheye\<close> calls are written out here after the library's
  implementation, over the reals instead of double-precision floats. Matrices keep the
  library's column-major element order \<^verbatim>\<open>te[0]\<close>, \<^verbatim>\<open>te[1]\<close>, ...
\<close>

datatype Vector2 = Vector2 real real

datatype Vector3 = Vector3 real real real

datatype Quaternion = Quaternion real real real real

datatype Euler = Euler real real real

datatype Matrix3 = Matrix3 real real real real real real real real real

datatype Matrix4 =
  Matrix4 real real real real  real real real real  real real real real  real real real real

record Sphere =
  center :: Vector3
  radius :: real

record Ray =
  origin :: Vector3
  direction :: Vector3

text \<open>Only the ray of a \<^verbatim>\<open>THREE.Raycaster\<close> is read or written by \<^verbatim>\<open>Fisheye\<close>.\<close>

record Raycaster =
  ray :: Ray

subsection \<open>Vector3\<close>

fun dot :: "Vector3 \<Rightarrow> Vector3 \<Rightarrow> real" where
  "dot (Vector3 x y z) (Vector3 vx vy vz) = x * vx + y * vy + z * vz"

fun lengthV :: "Vector3 \<Rightarrow> real" where
  "lengthV (Vector3 x y z) = sqrt (x * x + y * y + z * z)"

fun multiplyScalar :: "Vector3 \<Rightarrow> real \<Rightarrow> Vector3" where
  "multiplyScalar (Vector3 x y z) s = Vector3 (x * s) (y * s) (z * s)"

fun sub :: "Vector3 \<Rightarrow> Vector3 \<Rightarrow> Vector3" where
  "sub (Vector3 x y z) (Vector3 vx vy vz) = Vector3 (x - vx) (y - vy) (z - vz)"

fun add :: "Vector3 \<Rightarrow> Vector3 \<Rightarrow> Vector3" where
  "add (Vector3 x y z) (Vector3 vx vy vz) = Vector3 (x + vx) (y + vy) (z + vz)"

text \<open>\<^verbatim>\<open>divideScalar(this.length() || 1)\<close>: a zero vector is divided by one.\<close>

definition normalizeV :: "Vector3 \<Rightarrow> Vector3" where
  "normalizeV v = multiplyScalar v (1 / (if lengthV v = 0 then 1 else lengthV v))"

text \<open>\<^verbatim>\<open>this.sub(normal * (2 * this.dot(normal)))\<close>\<close>

definition reflect :: "Vector3 \<Rightarrow> Vector3 \<Rightarrow> Vector3" where
  "reflect v normal = sub v (multiplyScalar normal (2 * dot v normal))"

fun applyMatrix3 :: "Vector3 \<Rightarrow> Matrix3 \<Rightarrow> Vector3" where
  "applyMatrix3 (Vector3 x y z) (Matrix3 e0 e1 e2 e3 e4 e5 e6 e7 e8) =
     Vector3 (e0 * x + e3 * y + e6 * z) (e1 * x + e4 * y + e7 * z) (e2 * x + e5 * y + e8 * z)"

definition applyNormalMatrix :: "Vector3 \<Rightarrow> Matrix3 \<Rightarrow> Vector3" where
  "applyNormalMatrix v m = normalizeV (applyMatrix3 v m)"

fun applyMatrix4 :: "Vector3 \<Rightarrow> Matrix4 \<Rightarrow> Vector3" where
  "applyMatrix4 (Vector3 x y z)
       (Matrix4 e0 e1 e2 e3 e4 e5 e6 e7 e8 e9 e10 e11 e12 e13 e14 e15) =
     (let w = 1 / (e3 * x + e7 * y + e11 * z + e15)
      in Vector3 ((e0 * x + e4 * y + e8 * z + e12) * w)
                 ((e1 * x + e5 * y + e9 * z + e13) * w)
                 ((e2 * x + e6 * y + e10 * z + e14) * w))"

fun transformDirection :: "Vector3 \<Rightarrow> Matrix4 \<Rightarrow> Vector3" where
  "transformDirection (Vector3 x y z)
       (Matrix4 e0 e1 e2 e3 e4 e5 e6 e7 e8 e9 e10 e11 e12 e13 e14 e15) =
     normalizeV (Vector3 (e0 * x + e4 * y + e8 * z)
                         (e1 * x + e5 * y + e9 * z)
                         (e2 * x + e6 * y + e10 * z))"

fun setFromMatrixPosition :: "Matrix4 \<Rightarrow> Vector3" where
  "setFromMatrixPosition (Matrix4 e0 e1 e2 e3 e4 e5 e6 e7 e8 e9 e10 e11 e12 e13 e14 e15) =
     Vector3 e12 e13 e14"

text \<open>The library's comment: the quaternion is assumed to have unit length.\<close>

fun applyQuaternion :: "Vector3 \<Rightarrow> Quaternion \<Rightarrow> Vector3" where
  "applyQuaternion (Vector3 vx vy vz) (Quaternion qx qy qz qw) =
     (let tx = 2 * (qy * vz - qz * vy);
          ty = 2 * (qz * vx - qx * vz);
          tz = 2 * (qx * vy - qy * vx)
      in Vector3 (vx + qw * tx + qy * tz - qz * ty)
                 (vy + qw * ty + qz * tx - qx * tz)
                 (vz + qw * tz + qx * ty - qy * tx))"


subsection \<open>Quaternion\<close>

text \<open>\<^verbatim>\<open>setFromEuler\<close> for the default rotation order \<^verbatim>\<open>'XYZ'\<close>.\<close>

fun setFromEuler :: "Euler \<Rightarrow> Quaternion" where
  "setFromEuler (Euler x y z) =
     (let c1 = cos (x / 2); c2 = cos (y / 2); c3 = cos (z / 2);
          s1 = sin (x / 2); s2 = sin (y / 2); s3 = sin (z / 2)
      in Quaternion (s1 * c2 * c3 + c1 * s2 * s3)
                    (c1 * s2 * c3 - s1 * c2 * s3)
                    (c1 * c2 * s3 + s1 * s2 * c3)
                    (c1 * c2 * c3 - s1 * s2 * s3))"

fun multiplyQuaternions :: "Quaternion \<Rightarrow> Quaternion \<Rightarrow> Quaternion" where
  "multiplyQuaternions (Quaternion qax qay qaz qaw) (Quaternion qbx qby qbz qbw) =
     Quaternion (qax * qbw + qaw * qbx + qay * qbz - qaz * qby)
                (qay * qbw + qaw * qby + qaz * qbx - qax * qbz)
                (qaz * qbw + qaw * qbz + qax * qby - qay * qbx)
                (qaw * qbw - qax * qbx - qay * qby - qaz * qbz)"

text \<open>\<^verbatim>\<open>this.premultiply(q)\<close> is \<^verbatim>\<open>multiplyQuaternions(q, this)\<close>.\<close>

definition premultiply :: "Quaternion \<Rightarrow> Quaternion \<Rightarrow> Quaternion" where
  "premultiply this q = multiplyQuaternions q this"


subsection \<open>Matrix4 and Matrix3\<close>

definition identity4 :: Matrix4 where
  "identity4 = Matrix4 1 0 0 0  0 1 0 0  0 0 1 0  0 0 0 1"

fun compose :: "Vector3 \<Rightarrow> Quaternion \<Rightarrow> Vector3 \<Rightarrow> Matrix4" where
  "compose (Vector3 px py pz) (Quaternion x y z w) (Vector3 sx sy sz) =
     (let x2 = x + x; y2 = y + y; z2 = z + z;
          xx = x * x2; xy = x * y2; xz = x * z2;
          yy = y * y2; yz = y * z2; zz = z * z2;
          wx = w * x2; wy = w * y2; wz = w * z2
      in Matrix4 ((1 - (yy + zz)) * sx) ((xy + wz) * sx) ((xz - wy) * sx) 0
                 ((xy - wz) * sy) ((1 - (xx + zz)) * sy) ((yz + wx) * sy) 0
                 ((xz + wy) * sz) ((yz - wx) * sz) ((1 - (xx + yy)) * sz) 0
                 px py pz 1)"

text \<open>The projection matrix of an orthographic camera (WebGL coordinate system).\<close>

definition makeOrthographic :: "real \<Rightarrow> real \<Rightarrow> real \<Rightarrow> real \<Rightarrow> real \<Rightarrow> real \<Rightarrow> Matrix4" where
  "makeOrthographic left right top' bottom near far =
     (let w = 1 / (right - left); h = 1 / (top' - bottom); p = 1 / (far - near);
          x = (right + left) * w; y = (top' + bottom) * h;
          z = (far + near) * p; zInv = - 2 * p
      in Matrix4 (2 * w) 0 0 0
                 0 (2 * h) 0 0
                 0 0 zInv 0
                 (- x) (- y) (- z) 1)"

text \<open>
  \<^verbatim>\<open>projectionMatrixInverse.copy(projectionMatrix).invert()\<close>: the library inverts by
  cofactors; for the matrix above the result is this one, as long as the frustum is not
  degenerate (\<open>left \<noteq> right\<close>, \<open>top \<noteq> bottom\<close>, \<open>near \<noteq> far\<close>). On a degenerate
  frustum the code divides by zero and its matrices hold \<^verbatim>\<open>Infinity\<close> and \<^verbatim>\<open>NaN\<close>, where a
  division by zero in the reals of HOL is zero: there these two definitions say nothing
  about the code, and the properties below that depend on the entries of these matrices
  are stated for viewports of nonzero width and height.
\<close>

definition orthographicInverse :: "real \<Rightarrow> real \<Rightarrow> real \<Rightarrow> real \<Rightarrow> real \<Rightarrow> real \<Rightarrow> Matrix4" where
  "orthographicInverse left right top' bottom near far =
     Matrix4 ((right - left) / 2) 0 0 0
             0 ((top' - bottom) / 2) 0 0
             0 0 (- (far - near) / 2) 0
             ((right + left) / 2) ((top' + bottom) / 2) (- (far + near) / 2) 1"

fun setFromMatrix4 :: "Matrix4 \<Rightarrow> Matrix3" where
  "setFromMatrix4 (Matrix4 e0 e1 e2 e3 e4 e5 e6 e7 e8 e9 e10 e11 e12 e13 e14 e15) =
     Matrix3 e0 e1 e2 e4 e5 e6 e8 e9 e10"

fun invert3 :: "Matrix3 \<Rightarrow> Matrix3" where
  "invert3 (Matrix3 n11 n21 n31 n12 n22 n32 n13 n23 n33) =
     (let t11 = n33 * n22 - n32 * n23;
          t12 = n32 * n13 - n33 * n12;
          t13 = n23 * n12 - n22 * n13;
          det = n11 * t11 + n21 * t12 + n31 * t13
      in if det = 0 then Matrix3 0 0 0 0 0 0 0 0 0
         else
           let detInv = 1 / det
           in Matrix3 (t11 * detInv)
                      ((n31 * n23 - n33 * n21) * detInv)
                      ((n32 * n21 - n31 * n22) * detInv)
                      (t12 * detInv)
                      ((n33 * n11 - n31 * n13) * detInv)
                      ((n31 * n12 - n32 * n11) * detInv)
                      (t13 * detInv)
                      ((n21 * n13 - n23 * n11) * detInv)
                      ((n22 * n11 - n21 * n12) * detInv))"

fun transpose3 :: "Matrix3 \<Rightarrow> Matrix3" where
  "transpose3 (Matrix3 m0 m1 m2 m3 m4 m5 m6 m7 m8) = Matrix3 m0 m3 m6 m1 m4 m7 m2 m5 m8"

definition getNormalMatrix :: "Matrix4 \<Rightarrow> Matrix3" where
  "getNormalMatrix matrix4 = transpose3 (invert3 (setFromMatrix4 matrix4))"

definition identity3 :: Matrix3 where
  "identity3 = Matrix3 1 0 0  0 1 0  0 0 1"




subsection \<open>Ray and Raycaster\<close>

definition at_ray :: "Ray \<Rightarrow> real \<Rightarrow> Vector3" where
  "at_ray r t = add (origin r) (multiplyScalar (direction r) t)"

text \<open>
  \<^verbatim>\<open>Ray.intersectSphere(sphere, target)\<close>: \<^verbatim>\<open>null\<close> when the ray misses, otherwise the
  nearest intersection point in front of the origin.
\<close>

definition intersectSphere :: "Ray \<Rightarrow> Sphere \<Rightarrow> Vector3 option" where
  "intersectSphere r sphere =
     (let v = sub (center sphere) (origin r);
          tca = dot v (direction r);
          d2 = dot v v - tca * tca;
          radius2 = radius sphere * radius sphere
      in if d2 > radius2 then None
         else
           let thc = sqrt (radius2 - d2);
               t0 = tca - thc;
               t1 = tca + thc
           in if t1 < 0 then None
              else if t0 < 0 then Some (at_ray r t1)
              else Some (at_ray r t0))"


section \<open>src/core/Fisheye.ts\<close>

subsection \<open>The engine objects a Fisheye owns\<close>

text \<open>
  A \<^verbatim>\<open>WebGLCubeRenderTarget\<close> is an object with an identity; \<open>rt_id\<close> stands for it.
  Its texture \<^verbatim>\<open>rt.texture\<close> is one object per render target, so a reference to the
  texture is \<open>TextureOf\<close> the identity of its render target.
\<close>

record WebGLCubeRenderTarget =
  rt_id :: nat
  width :: real
  isRenderTargetTexture :: bool

datatype Texture = TextureOf nat

text \<open>\<^verbatim>\<open>material.needsUpdate = true\<close> is a setter that increments \<^verbatim>\<open>material.version\<close>.\<close>

record MeshBasicMaterial =
  material_envMap :: Texture
  material_version :: nat

record Mesh =
  geometry_segments :: real
  material :: MeshBasicMaterial
  mesh_scale :: Vector3

record OrthographicCamera =
  oc_position :: Vector3
  oc_quaternion :: Quaternion
  oc_scale :: Vector3
  oc_matrixWorld :: Matrix4
  oc_zoom :: real
  oc_left :: real
  oc_right :: real
  oc_top :: real
  oc_bottom :: real
  oc_near :: real
  oc_far :: real
  oc_projectionMatrix :: Matrix4
  oc_projectionMatrixInverse :: Matrix4

record CubeCameraObject =
  cc_position :: Vector3
  cc_quaternion :: Quaternion
  cc_scale :: Vector3
  cc_matrixWorld :: Matrix4
  cc_renderTarget :: WebGLCubeRenderTarget

text \<open>
  What the engine is asked to do, in order: render targets created and disposed, the
  six-face capture of a scene by the cube camera, and the rendering of the sphere mesh
  through the orthographic camera. The objects are recorded as they are at the call.
\<close>

datatype 'scene gl_event =
    TargetCreated nat real
  | TargetDisposed nat
  | CubeCaptured 'scene CubeCameraObject
  | MeshRendered Mesh OrthographicCamera

record 'scene gl =
  targets_created :: nat
  events :: "'scene gl_event list"

text \<open>
  Whether a render call throws, given the events so far and the call attempted.
\<close>

type_synonym 'scene gl_renderer = "'scene gl_event list \<Rightarrow> 'scene gl_event \<Rightarrow> bool"

definition quaternion_identity :: Quaternion where
  "quaternion_identity = Quaternion 0 0 0 1"

text \<open>
  \<^verbatim>\<open>OrthographicCamera.updateProjectionMatrix()\<close> (no view offset). The model of the
  inverse is the inverse when the frustum is not degenerate.
\<close>

definition updateProjectionMatrix :: "OrthographicCamera \<Rightarrow> OrthographicCamera" where
  "updateProjectionMatrix c =
     (let dx = (oc_right c - oc_left c) / (2 * oc_zoom c);
          dy = (oc_top c - oc_bottom c) / (2 * oc_zoom c);
          cx = (oc_right c + oc_left c) / 2;
          cy = (oc_top c + oc_bottom c) / 2;
          left = cx - dx;
          right = cx + dx;
          top' = cy + dy;
          bottom = cy - dy
      in c\<lparr>oc_projectionMatrix :=
              makeOrthographic left right top' bottom (oc_near c) (oc_far c),
            oc_projectionMatrixInverse :=
              orthographicInverse left right top' bottom (oc_near c) (oc_far c)\<rparr>)"

text \<open>\<^verbatim>\<open>new THREE.OrthographicCamera()\<close> with the library's defaults.\<close>

definition new_OrthographicCamera :: OrthographicCamera where
  "new_OrthographicCamera =
     updateProjectionMatrix
       \<lparr>oc_position = Vector3 0 0 0, oc_quaternion = quaternion_identity,
        oc_scale = Vector3 1 1 1, oc_matrixWorld = identity4,
        oc_zoom = 1, oc_left = - 1, oc_right = 1, oc_top = 1, oc_bottom = - 1,
        oc_near = 1 / 10, oc_far = 2000,
        oc_projectionMatrix = identity4, oc_projectionMatrixInverse = identity4\<rparr>"

definition new_CubeCamera :: "WebGLCubeRenderTarget \<Rightarrow> CubeCameraObject" where
  "new_CubeCamera rt =
     \<lparr>cc_position = Vector3 0 0 0, cc_quaternion = quaternion_identity,
      cc_scale = Vector3 1 1 1, cc_matrixWorld = identity4, cc_renderTarget = rt\<rparr>"

text \<open>
  \<^verbatim>\<open>Raycaster.setFromCamera(coords, camera)\<close> for an orthographic camera: the origin is
  the point of the camera plane under the pointer, unprojected; the direction is the
  camera's viewing direction.
\<close>

fun setFromCamera :: "Vector2 \<Rightarrow> OrthographicCamera \<Rightarrow> Raycaster \<Rightarrow> Raycaster" where
  "setFromCamera (Vector2 x y) camera raycaster =
     raycaster\<lparr>ray :=
       \<lparr>origin =
          applyMatrix4
            (applyMatrix4
               (Vector3 x y ((oc_near camera + oc_far camera) / (oc_near camera - oc_far camera)))
               (oc_projectionMatrixInverse camera))
            (oc_matrixWorld camera),
        direction = transformDirection (Vector3 0 0 (- 1)) (oc_matrixWorld camera)\<rparr>\<rparr>"

subsection \<open>The class\<close>

record FisheyeProps =
  zoom_opt :: "real option"
  segments_opt :: "real option"
  resolution_opt :: "real option"

record Temp =
  temp_t :: Vector3
  temp_r :: Quaternion
  temp_s :: Vector3
  temp_e :: Euler
  temp_sphere :: Sphere
  temp_normal :: Vector3
  temp_normalMatrix :: Matrix3

record Fisheye =
  resolution :: real
  segments :: real
  zoom :: real
  renderTarget :: WebGLCubeRenderTarget
  sphereMesh :: Mesh
  orthoCamera :: OrthographicCamera
  cubeCamera :: CubeCameraObject
  temp :: Temp

definition createRenderTarget ::
  "real \<Rightarrow> 'scene gl \<Rightarrow> WebGLCubeRenderTarget \<times> 'scene gl" where
  "createRenderTarget res g =
     (let rt = \<lparr>rt_id = targets_created g, width = res, isRenderTargetTexture = True\<rparr>;
          g1 = g\<lparr>targets_created := targets_created g + 1,
                 events := events g @ [TargetCreated (rt_id rt) res]\<rparr>;
          rt1 = rt\<lparr>isRenderTargetTexture := False\<rparr>
      in (rt1, g1))"

definition dispose :: "WebGLCubeRenderTarget \<Rightarrow> 'scene gl \<Rightarrow> 'scene gl" where
  "dispose rt g = g\<lparr>events := events g @ [TargetDisposed (rt_id rt)]\<rparr>"

definition updateResolution ::
  "real \<Rightarrow> Fisheye \<times> 'scene gl \<Rightarrow> Fisheye \<times> 'scene gl" where
  "updateResolution res st =
     (let this = fst st; g = snd st
      in if res = width (renderTarget this) then (this, g)
         else
           let g1 = dispose (renderTarget this) g;
               (rt, g2) = createRenderTarget res g1;
               this1 = this\<lparr>renderTarget := rt\<rparr>;
               this2 = this1\<lparr>cubeCamera := (cubeCamera this1)\<lparr>cc_renderTarget := renderTarget this1\<rparr>\<rparr>;
               this3 = this2\<lparr>sphereMesh := (sphereMesh this2)\<lparr>material :=
                         (material (sphereMesh this2))\<lparr>material_envMap :=
                            TextureOf (rt_id (renderTarget this2))\<rparr>\<rparr>\<rparr>;
               this4 = this3\<lparr>sphereMesh := (sphereMesh this3)\<lparr>material :=
                         (material (sphereMesh this3))\<lparr>material_version :=
                            material_version (material (sphereMesh this3)) + 1\<rparr>\<rparr>\<rparr>
           in (this4, g2))"

definition onResize :: "real \<Rightarrow> real \<Rightarrow> Fisheye \<Rightarrow> Fisheye" where
  "onResize width' height this =
     (let w = width'; h = height;
          c1 = (orthoCamera this)\<lparr>oc_position := Vector3 0 0 100\<rparr>;
          c2 = c1\<lparr>oc_zoom := 100\<rparr>;
          c3 = c2\<lparr>oc_left := w / - 2\<rparr>;
          c4 = c3\<lparr>oc_right := w / 2\<rparr>;
          c5 = c4\<lparr>oc_top := h / 2\<rparr>;
          c6 = c5\<lparr>oc_bottom := h / - 2\<rparr>;
          c7 = updateProjectionMatrix c6;
          this1 = this\<lparr>orthoCamera := c7\<rparr>;
          radius' = (sqrt (w * w + h * h) / 100) * (1 / 2 + zoom this1 / 2);
          this2 = this1\<lparr>sphereMesh := (sphereMesh this1)\<lparr>mesh_scale :=
                    Vector3 radius' radius' radius'\<rparr>\<rparr>;
          this3 = this2\<lparr>temp := (temp this2)\<lparr>temp_sphere :=
                    (temp_sphere (temp this2))\<lparr>radius := radius'\<rparr>\<rparr>\<rparr>
      in this3)"

definition new_Fisheye :: "FisheyeProps \<Rightarrow> 'scene gl \<Rightarrow> Fisheye \<times> 'scene gl" where
  "new_Fisheye props g =
     (let resolution' = default_to 896 (resolution_opt props);
          segments' = default_to 64 (segments_opt props);
          zoom' = default_to 0 (zoom_opt props);
          (rt, g1) = createRenderTarget resolution' g;
          material' = \<lparr>material_envMap = TextureOf (rt_id rt), material_version = 0\<rparr>;
          this = \<lparr>resolution = resolution', segments = segments', zoom = zoom',
                  renderTarget = rt,
                  sphereMesh = \<lparr>geometry_segments = segments', material = material',
                                 mesh_scale = Vector3 1 1 1\<rparr>,
                  orthoCamera = new_OrthographicCamera,
                  cubeCamera = new_CubeCamera rt,
                  temp = \<lparr>temp_t = Vector3 0 0 0, temp_r = quaternion_identity,
                           temp_s = Vector3 0 0 0, temp_e = Euler 0 pi 0,
                           temp_sphere = \<lparr>center = Vector3 0 0 0, radius = - 1\<rparr>,
                           temp_normal = Vector3 0 0 0, temp_normalMatrix = identity3\<rparr>\<rparr>
      in (onResize 100 100 this, g1))"

fun flipX :: "Vector3 \<Rightarrow> Vector3" where
  "flipX (Vector3 x y z) = Vector3 (x * - 1) y z"

definition computeRaycastRayDirection ::
  "Raycaster \<Rightarrow> Vector2 \<Rightarrow> Fisheye \<Rightarrow> Raycaster \<times> Fisheye" where
  "computeRaycastRayDirection raycaster pointer this =
     (let orthoC = orthoCamera this;
          sph = temp_sphere (temp this);
          rc1 = setFromCamera pointer orthoC raycaster
      in case intersectSphere (ray rc1) sph of
           None \<Rightarrow> (rc1, this)
         | Some hit \<Rightarrow>
             let normal = normalizeV hit;
                 this1 = this\<lparr>temp := (temp this)\<lparr>temp_normal := normal\<rparr>\<rparr>;
                 normalMatrix = getNormalMatrix (cc_matrixWorld (cubeCamera this1));
                 this2 = this1\<lparr>temp := (temp this1)\<lparr>temp_normalMatrix := normalMatrix\<rparr>\<rparr>;
                 cam = cubeCamera this2;
                 this3 = this2\<lparr>cubeCamera := cam\<lparr>cc_matrixWorld :=
                           compose (cc_position cam) (cc_quaternion cam) (cc_scale cam)\<rparr>\<rparr>;
                 rc2 = rc1\<lparr>ray := (ray rc1)\<lparr>origin :=
                           setFromMatrixPosition (cc_matrixWorld (cubeCamera this3))\<rparr>\<rparr>;
                 rc3 = rc2\<lparr>ray := (ray rc2)\<lparr>direction := reflect (Vector3 0 0 1) normal\<rparr>\<rparr>;
                 rc4 = rc3\<lparr>ray := (ray rc3)\<lparr>direction := flipX (direction (ray rc3))\<rparr>\<rparr>;
                 rc5 = rc4\<lparr>ray := (ray rc4)\<lparr>direction :=
                           multiplyScalar (applyNormalMatrix (direction (ray rc4)) normalMatrix) (- 1)\<rparr>\<rparr>
             in (rc5, this3))"

text \<open>
  \<^verbatim>\<open>render\<close>. The source camera enters through its \<^verbatim>\<open>matrixWorld\<close>;
  \<^verbatim>\<open>Matrix4.decompose\<close> is a parameter, since nothing below depends on how the library
  extracts translation, rotation and scale. \<^verbatim>\<open>THREE.CubeCamera.update\<close> and
  \<^verbatim>\<open>WebGLRenderer.render\<close> first bring the world matrix of their parentless camera up
  to date and then render; a throw leaves everything done before it in place.
\<close>

definition render ::
  "('m \<Rightarrow> Vector3 \<times> Quaternion \<times> Vector3) \<Rightarrow> 'scene gl_renderer \<Rightarrow> 'scene \<Rightarrow> 'm \<Rightarrow>
   Fisheye \<times> 'scene gl \<Rightarrow> completion \<times> Fisheye \<times> 'scene gl" where
  "render decompose throws scene' camera_matrixWorld st =
     (let this = fst st; g = snd st;
          (t, r, s) = decompose camera_matrixWorld;
          this1 = this\<lparr>temp := (temp this)\<lparr>temp_t := t, temp_r := r, temp_s := s\<rparr>\<rparr>;
          this2 = this1\<lparr>cubeCamera := (cubeCamera this1)\<lparr>cc_position := temp_t (temp this1)\<rparr>\<rparr>;
          this3 = this2\<lparr>cubeCamera := (cubeCamera this2)\<lparr>cc_quaternion :=
                    premultiply (setFromEuler (temp_e (temp this2))) (temp_r (temp this2))\<rparr>\<rparr>;
          cam = cubeCamera this3;
          this4 = this3\<lparr>cubeCamera := cam\<lparr>cc_matrixWorld :=
                    compose (cc_position cam) (cc_quaternion cam) (cc_scale cam)\<rparr>\<rparr>;
          capture = CubeCaptured scene' (cubeCamera this4)
      in if throws (events g) capture then (Thrown, this4, g)
         else
           let g1 = g\<lparr>events := events g @ [capture]\<rparr>;
               oc = orthoCamera this4;
               this5 = this4\<lparr>orthoCamera := oc\<lparr>oc_matrixWorld :=
                         compose (oc_position oc) (oc_quaternion oc) (oc_scale oc)\<rparr>\<rparr>;
               draw = MeshRendered (sphereMesh this5) (orthoCamera this5)
           in if throws (events g1) draw then (Thrown, this5, g1)
              else (Returned, this5, g1\<lparr>events := events g1 @ [draw]\<rparr>))"


section \<open>src/core/CubeCamera.ts\<close>

record ('bg, 'fog) CubeCameraProps =
  resolution :: "real option"
  near :: "real option"
  far :: "real option"
  frames :: "number option"
  envMap :: "'bg option"
  fog :: "'fog option"

text \<open>The two properties of \<^verbatim>\<open>THREE.Scene\<close> that \<^verbatim>\<open>update\<close> touches; \<^verbatim>\<open>null\<close> is \<open>None\<close>.\<close>

record ('bg, 'fog) scene =
  scene_fog :: "'fog option"
  scene_background :: "'bg option"

text \<open>
  What the factory returns together with the variables its closure keeps:
  \<open>frames_const\<close> is the destructured constant \<^verbatim>\<open>frames\<close> that \<^verbatim>\<open>update\<close> reads,
  \<open>count\<close> is \<^verbatim>\<open>let count = 0\<close>. Neither is reachable from outside.
\<close>

record ('bg, 'fog) CubeCameraType =
  group_visible :: bool
  fbo_resolution :: real
  camera_near :: real
  camera_far :: real
  params :: "('bg, 'fog) CubeCameraProps"
  frames_const :: number
  count :: nat

text \<open>
  The scene the closure captured, the instance, and the record of the completed
  \<^verbatim>\<open>camera.update(renderer, scene)\<close> calls: for each one, the scene properties and the
  visibility of the group as the renderer saw them. The cube texture holds the image of
  the last entry.
\<close>

record ('bg, 'fog) world =
  scene :: "('bg, 'fog) scene"
  cube :: "('bg, 'fog) CubeCameraType"
  captured :: "(('bg, 'fog) scene \<times> bool) list"

text \<open>
  The renderer is an external collaborator. All that matters of it here is whether the
  six-face capture returns or throws; that may depend on what it is given to render
  (the scene and the visibility of the group) and on the captures it completed before.
\<close>

type_synonym ('bg, 'fog) renderer =
  "(('bg, 'fog) scene \<times> bool) list \<Rightarrow> ('bg, 'fog) scene \<times> bool \<Rightarrow> bool"

definition CubeCamera ::
  "('bg, 'fog) scene \<Rightarrow> ('bg, 'fog) CubeCameraProps \<Rightarrow> ('bg, 'fog) world" where
  "CubeCamera sc props =
     (let resolution' = default_to 256 (resolution props);
          near' = default_to (1 / 10) (near props);
          far' = default_to 1000 (far props);
          frames' = default_to Infinity (frames props);
          params' = \<lparr>resolution = Some resolution', near = Some near', far = Some far',
                     frames = Some frames', envMap = envMap props, fog = fog props\<rparr>
      in \<lparr>scene = sc,
          cube = \<lparr>group_visible = True, fbo_resolution = resolution',
                   camera_near = near', camera_far = far', params = params',
                   frames_const = frames', count = 0\<rparr>,
          captured = []\<rparr>)"

text \<open>Whether the guard of \<^verbatim>\<open>update\<close> lets the capture run.\<close>

definition under_budget :: "('bg, 'fog) CubeCameraType \<Rightarrow> bool" where
  "under_budget c = (frames_const c = Infinity \<or> js_less (real (count c)) (frames_const c))"

definition update ::
  "('bg, 'fog) renderer \<Rightarrow> ('bg, 'fog) world \<Rightarrow> completion \<times> ('bg, 'fog) world" where
  "update throws w =
     (if under_budget (cube w) then
        let w1 = w\<lparr>cube := (cube w)\<lparr>group_visible := False\<rparr>\<rparr>;
            originalFog = scene_fog (scene w1);
            originalBackground = scene_background (scene w1);
            w2 = w1\<lparr>scene := (scene w1)\<lparr>scene_background :=
                   or_else (envMap (params (cube w1))) originalBackground\<rparr>\<rparr>;
            w3 = w2\<lparr>scene := (scene w2)\<lparr>scene_fog :=
                   or_else (fog (params (cube w2))) originalFog\<rparr>\<rparr>
        in if throws (captured w3) (scene w3, group_visible (cube w3)) then (Thrown, w3)
           else
             let w4 = w3\<lparr>captured := captured w3 @ [(scene w3, group_visible (cube w3))]\<rparr>;
                 w5 = w4\<lparr>scene := (scene w4)\<lparr>scene_fog := originalFog\<rparr>\<rparr>;
                 w6 = w5\<lparr>scene := (scene w5)\<lparr>scene_background := originalBackground\<rparr>\<rparr>;
                 w7 = w6\<lparr>cube := (cube w6)\<lparr>group_visible := True\<rparr>\<rparr>;
                 w8 = w7\<lparr>cube := (cube w7)\<lparr>count := count (cube w7) + 1\<rparr>\<rparr>
             in (Returned, w8)
      else (Returned, w))"

text \<open>
  Calling \<^verbatim>\<open>update()\<close> \<open>n\<close> times in a row; an exception ends the sequence.
\<close>

fun updates ::
  "('bg, 'fog) renderer \<Rightarrow> nat \<Rightarrow> ('bg, 'fog) world \<Rightarrow> completion \<times> ('bg, 'fog) world" where
  "updates throws 0 w = (Returned, w)"
| "updates throws (Suc n) w =
     (case update throws w of
        (Thrown, w') \<Rightarrow> (Thrown, w')
      | (Returned, w') \<Rightarrow> updates throws n w')"

text \<open>A renderer that always completes, and one whose capture always throws.\<close>

definition sound_renderer :: "('bg, 'fog) renderer" where
  "sound_renderer past view = False"

definition failing_renderer :: "('bg, 'fog) renderer" where
  "failing_renderer past view = True"

text \<open>
  A concrete scene and instance for evaluation: a scene with a colour background and a
  fog, and a cube camera built with an environment map, a fog and a budget of two frames.
\<close>

definition demo_scene :: "(string, string) scene" where
  "demo_scene = \<lparr>scene_fog = Some ''sceneFog'', scene_background = Some ''f0f0f0''\<rparr>"

definition demo_props :: "(string, string) CubeCameraProps" where
  "demo_props = \<lparr>resolution = Some 256, near = None, far = None, frames = Some (Num 2),
                  envMap = Some ''studio'', fog = Some ''captureFog''\<rparr>"

definition demo_world :: "(string, string) world" where
  "demo_world = CubeCamera demo_scene demo_props"


text \<open>
  The host mutating the returned \<^verbatim>\<open>params\<close> object:
  \<^verbatim>\<open>cubeCamera.params.frames = f\<close>, \<^verbatim>\<open>cubeCamera.params.envMap = e\<close>,
  \<^verbatim>\<open>cubeCamera.params.fog = g\<close>.
\<close>

definition set_params_frames ::
  "number option \<Rightarrow> ('bg, 'fog) world \<Rightarrow> ('bg, 'fog) world" where
  "set_params_frames f w = w\<lparr>cube := (cube w)\<lparr>params := (params (cube w))\<lparr>frames := f\<rparr>\<rparr>\<rparr>"

definition set_params_envMap ::
  "'bg option \<Rightarrow> ('bg, 'fog) world \<Rightarrow> ('bg, 'fog) world" where
  "set_params_envMap e w = w\<lparr>cube := (cube w)\<lparr>params := (params (cube w))\<lparr>envMap := e\<rparr>\<rparr>\<rparr>"

definition set_params_fog ::
  "'fog option \<Rightarrow> ('bg, 'fog) world \<Rightarrow> ('bg, 'fog) world" where
  "set_params_fog g w = w\<lparr>cube := (cube w)\<lparr>params := (params (cube w))\<lparr>fog := g\<rparr>\<rparr>\<rparr>"


section \<open>Auxiliary definitions for the properties of Fisheye\<close>

text \<open>
  The capture camera and the material of the sphere refer to the render target the
  instance holds, and to its texture.
\<close>

definition texture_bound :: "Fisheye \<Rightarrow> bool" where
  "texture_bound this \<longleftrightarrow>
     cc_renderTarget (cubeCamera this) = renderTarget this \<and>
     material_envMap (material (sphereMesh this)) = TextureOf (rt_id (renderTarget this))"

text \<open>
  What a host does with an instance: it calls the four methods and assigns to the two
  mutable fields \<^verbatim>\<open>zoom\<close> and \<^verbatim>\<open>resolution\<close> (as the story's GUI does).
\<close>

datatype ('m, 'scene) call =
    UpdateResolution real
  | OnResize real real
  | Render 'scene 'm
  | ComputeRaycastRayDirection Raycaster Vector2
  | AssignZoom real
  | AssignResolution real

fun perform ::
  "('m \<Rightarrow> Vector3 \<times> Quaternion \<times> Vector3) \<Rightarrow> 'scene gl_renderer \<Rightarrow>
   ('m, 'scene) call \<Rightarrow> Fisheye \<times> 'scene gl \<Rightarrow> Fisheye \<times> 'scene gl" where
  "perform decompose throws (UpdateResolution res) st = updateResolution res st"
| "perform decompose throws (OnResize w h) st = (onResize w h (fst st), snd st)"
| "perform decompose throws (Render scene' m) st = snd (render decompose throws scene' m st)"
| "perform decompose throws (ComputeRaycastRayDirection raycaster pointer) st =
     (snd (computeRaycastRayDirection raycaster pointer (fst st)), snd st)"
| "perform decompose throws (AssignZoom z) st = ((fst st)\<lparr>zoom := z\<rparr>, snd st)"
| "perform decompose throws (AssignResolution res) st = ((fst st)\<lparr>Fisheye.resolution := res\<rparr>, snd st)"

fun perform_all ::
  "('m \<Rightarrow> Vector3 \<times> Quaternion \<times> Vector3) \<Rightarrow> 'scene gl_renderer \<Rightarrow>
   ('m, 'scene) call list \<Rightarrow> Fisheye \<times> 'scene gl \<Rightarrow> Fisheye \<times> 'scene gl" where
  "perform_all decompose throws [] st = st"
| "perform_all decompose throws (c # cs) st =
     perform_all decompose throws cs (perform decompose throws c st)"

text \<open>Concrete values for evaluation: a fresh engine state and the default instance.\<close>

definition gl0 :: "string gl" where
  "gl0 = \<lparr>targets_created = 0, events = []\<rparr>"

definition no_props :: FisheyeProps where
  "no_props = \<lparr>zoom_opt = None, segments_opt = None, resolution_opt = None\<rparr>"

definition demo_fisheye :: "Fisheye \<times> string gl" where
  "demo_fisheye = new_Fisheye no_props gl0"

definition gl_sound :: "string gl_renderer" where
  "gl_sound past call = False"


text \<open>
  For evaluation, a source camera is given by the translation, rotation and scale its
  world matrix decomposes into.
\<close>

definition decomposed :: "Vector3 \<times> Quaternion \<times> Vector3 \<Rightarrow> Vector3 \<times> Quaternion \<times> Vector3" where
  "decomposed m = m"


text \<open>What the zoom determines: the scale of the sphere and the cached radius.\<close>

definition lens :: "Fisheye \<Rightarrow> Vector3 \<times> real" where
  "lens this = (mesh_scale (sphereMesh this), radius (temp_sphere (temp this)))"


text \<open>
  What the constructor sets up and no method changes: the Euler angles of the yaw, the
  centre of the intersection sphere, the unit scale of the cube camera, and the placement
  and frustum of the orthographic camera (zoom 100, symmetric bounds, projection up to
  date).
\<close>

definition rig_ok :: "Fisheye \<Rightarrow> bool" where
  "rig_ok this \<longleftrightarrow>
     temp_e (temp this) = Euler 0 pi 0 \<and>
     center (temp_sphere (temp this)) = Vector3 0 0 0 \<and>
     cc_scale (cubeCamera this) = Vector3 1 1 1 \<and>
     oc_position (orthoCamera this) = Vector3 0 0 100 \<and>
     oc_quaternion (orthoCamera this) = quaternion_identity \<and>
     oc_scale (orthoCamera this) = Vector3 1 1 1 \<and>
     oc_near (orthoCamera this) = 1 / 10 \<and>
     oc_far (orthoCamera this) = 2000 \<and>
     oc_zoom (orthoCamera this) = 100 \<and>
     oc_left (orthoCamera this) = - oc_right (orthoCamera this) \<and>
     oc_bottom (orthoCamera this) = - oc_top (orthoCamera this) \<and>
     updateProjectionMatrix (orthoCamera this) = orthoCamera this"

text \<open>
  More concrete values: the default instance resized to 300 by 400, a raycaster that
  holds some earlier ray, and a source camera at \<open>(1, 2, 3)\<close> turned about the vertical
  axis (a unit quaternion).
\<close>

definition demo_resized :: Fisheye where
  "demo_resized = onResize 300 400 (fst demo_fisheye)"

definition demo_raycaster :: Raycaster where
  "demo_raycaster = \<lparr>ray = \<lparr>origin = Vector3 0 1 2, direction = Vector3 1 0 0\<rparr>\<rparr>"

definition demo_camera :: "Vector3 \<times> Quaternion \<times> Vector3" where
  "demo_camera = (Vector3 1 2 3, Quaternion 0 (3 / 5) 0 (4 / 5), Vector3 1 1 1)"


text \<open>
  The instance was last resized to a viewport whose width and height are not zero, with
  a zoom other than \<open>-1\<close>: the frustum of the orthographic camera is not degenerate and
  the intersection sphere has a radius. Only then do the divisions of the projection
  matrix mean in the reals what they mean in the code.
\<close>

definition viewport_ok :: "Fisheye \<Rightarrow> bool" where
  "viewport_ok this \<longleftrightarrow>
     oc_right (orthoCamera this) \<noteq> 0 \<and>
     oc_top (orthoCamera this) \<noteq> 0 \<and>
     radius (temp_sphere (temp this)) \<noteq> 0"




section \<open>Properties of the cube camera\<close>

lemma demo_world_eq:
  "demo_world =
     \<lparr>scene = \<lparr>scene_fog = Some ''sceneFog'', scene_background = Some ''f0f0f0''\<rparr>,
      cube = \<lparr>group_visible = True, fbo_resolution = 256, camera_near = 1 / 10,
               camera_far = 1000,
               params = \<lparr>resolution = Some 256, near = Some (1 / 10), far = Some 1000,
                          frames = Some (Num 2), envMap = Some ''studio'',
                          fog = Some ''captureFog''\<rparr>,
               frames_const = Num 2, count = 0\<rparr>,
      captured = []\<rparr>"
  by (simp add: demo_world_def CubeCamera_def demo_props_def demo_scene_def Let_def)

lemma update_skipped: "\<not> under_budget (cube w) \<Longrightarrow> update throws w = (Returned, w)"
  by (simp add: update_def)

lemma update_step:
  assumes "\<forall>past view. \<not> throws past view"
  shows "count (cube (snd (update throws w))) =
           count (cube w) + (if under_budget (cube w) then 1 else 0)"
    and "length (captured (snd (update throws w))) =
           length (captured w) + (if under_budget (cube w) then 1 else 0)"
    and "frames_const (cube (snd (update throws w))) = frames_const (cube w)"
    and "fst (update throws w) = Returned"
  using assms by (simp_all add: update_def Let_def)

lemma count_never_decremented: "count (cube w) \<le> count (cube (snd (update throws w)))"
  by (simp add: update_def Let_def)

lemma under_budget_Num: "frames_const c = Num (real k) \<Longrightarrow> under_budget c = (count c < k)"
  by (simp add: under_budget_def)

lemma updates_count:
  assumes nt: "\<forall>past view. \<not> throws past view"
  shows "frames_const (cube w) = Num (real k) \<Longrightarrow> count (cube w) \<le> k \<Longrightarrow>
     fst (updates throws n w) = Returned
   \<and> frames_const (cube (snd (updates throws n w))) = Num (real k)
   \<and> count (cube (snd (updates throws n w))) = min (count (cube w) + n) k
   \<and> length (captured (snd (updates throws n w))) =
       length (captured w) + (min (count (cube w) + n) k - count (cube w))"
proof (induction n arbitrary: w)
  case 0
  then show ?case by simp
next
  case (Suc n)
  let ?w' = "snd (update throws w)"
  note st = update_step [OF nt, of w]
  have ub: "under_budget (cube w) = (count (cube w) < k)"
    using Suc.prems(1) by (rule under_budget_Num)
  have le: "count (cube ?w') \<le> k"
    using st(1) ub Suc.prems(2) by auto
  have fr: "frames_const (cube ?w') = Num (real k)"
    using st(3) Suc.prems(1) by simp
  have eq: "updates throws (Suc n) w = updates throws n ?w'"
    using st(4) by (cases "update throws w") auto
  show ?case
    using Suc.IH [OF fr le] st(1,2) ub Suc.prems(2) unfolding eq by auto
qed

lemma updates_exhausted:
  "\<not> under_budget (cube w) \<Longrightarrow> updates throws m w = (Returned, w)"
  by (induction m) (simp_all add: update_skipped)

text \<open>
  C4, as the code has it. \<^verbatim>\<open>update\<close> has no \<^verbatim>\<open>try\<close>/\<^verbatim>\<open>finally\<close>: when the renderer
  throws inside \<^verbatim>\<open>camera.update(renderer, scene)\<close>, the two restoring assignments are
  never reached. At the demo instance with a throwing renderer the scene keeps the
  environment map as its background, so the claim fails for an abnormal exit.
\<close>

theorem update_thrown_leaves_substitute:
  "fst (update failing_renderer demo_world) = Thrown \<and>
   scene_background (scene (snd (update failing_renderer demo_world)))
     \<noteq> scene_background (scene demo_world)"
  by (simp add: demo_world_eq update_def under_budget_def failing_renderer_def Let_def)

text \<open>
  C4 (amended): after every call to \<^verbatim>\<open>update()\<close> that returns, whether the capture ran
  or was skipped because the frame budget was exhausted, \<^verbatim>\<open>scene.fog\<close> and
  \<^verbatim>\<open>scene.background\<close> equal the values they had immediately before the call.
\<close>

theorem update_restores_scene:
  "fst (update throws w) = Returned \<Longrightarrow>
     scene_fog (scene (snd (update throws w))) = scene_fog (scene w) \<and>
     scene_background (scene (snd (update throws w))) = scene_background (scene w)"
  by (simp add: update_def Let_def split: if_splits)

theorem update_restores_scene_witness:
  "fst (update sound_renderer demo_world) = Returned \<and>
   captured (snd (update sound_renderer demo_world)) \<noteq> captured demo_world \<and>
   scene_fog (scene (snd (update sound_renderer demo_world))) = Some ''sceneFog'' \<and>
   scene_background (scene (snd (update sound_renderer demo_world))) = Some ''f0f0f0''"
proof -
  have r: "fst (update sound_renderer demo_world) = Returned"
    by (simp add: demo_world_eq update_def under_budget_def sound_renderer_def Let_def)
  have c: "captured (snd (update sound_renderer demo_world)) \<noteq> captured demo_world"
    by (simp add: demo_world_eq update_def under_budget_def sound_renderer_def Let_def)
  show ?thesis
    using r c update_restores_scene [OF r] by (simp add: demo_world_eq)
qed

text \<open>
  C5: with a budget of \<open>k\<close> frames and a renderer that completes every capture, \<open>N \<ge> k\<close>
  calls of \<^verbatim>\<open>update()\<close> on a fresh instance perform exactly \<open>k\<close> captures and leave the
  counter at \<open>k\<close>; every further call is a no-op. On each single call, from any state,
  the capture runs exactly when the guard holds (the counter is below the budget, or the
  budget is \<^verbatim>\<open>Infinity\<close>), the counter grows by one exactly when the capture ran, and it
  never decreases.
\<close>

theorem frame_budget_exact:
  fixes throws :: "('bg, 'fog) renderer"
  assumes "\<forall>past view. \<not> throws past view"
    and "frames_const (cube w) = Num (real k)"
    and "count (cube w) = 0"
    and "k \<le> N"
  shows "length (captured (snd (updates throws N w))) = length (captured w) + k
    \<and> count (cube (snd (updates throws N w))) = k
    \<and> updates throws m (snd (updates throws N w)) = (Returned, snd (updates throws N w))
    \<and> (\<forall>v. (captured (snd (update throws v)) \<noteq> captured v) = under_budget (cube v))
    \<and> (\<forall>v::('bg, 'fog) world. under_budget (cube v) =
            (frames_const (cube v) = Infinity
             \<or> js_less (real (count (cube v))) (frames_const (cube v))))
    \<and> (\<forall>v. count (cube (snd (update throws v))) =
            count (cube v) + (if under_budget (cube v) then 1 else 0))
    \<and> (\<forall>v. count (cube v) \<le> count (cube (snd (update throws v))))
    \<and> (\<forall>v. \<not> under_budget (cube v) \<longrightarrow> update throws v = (Returned, v))"
proof -
  let ?w = "snd (updates throws N w)"
  have le: "count (cube w) \<le> k"
    using assms(3) by simp
  note run = updates_count [OF assms(1) assms(2) le, of N]
  have cnt: "count (cube ?w) = k"
    using run assms(3,4) by simp
  have len: "length (captured ?w) = length (captured w) + k"
    using run assms(3,4) by simp
  have "\<not> under_budget (cube ?w)"
    using run cnt by (simp add: under_budget_Num)
  then have noop: "updates throws m ?w = (Returned, ?w)"
    by (rule updates_exhausted)
  have ran: "\<forall>v. (captured (snd (update throws v)) \<noteq> captured v) = under_budget (cube v)"
    using assms(1) by (simp add: update_def Let_def)
  have step: "\<forall>v. count (cube (snd (update throws v))) =
      count (cube v) + (if under_budget (cube v) then 1 else 0)"
    using update_step(1) [OF assms(1)] by blast
  have mono: "\<forall>v. count (cube v) \<le> count (cube (snd (update throws v)))"
    by (simp add: count_never_decremented)
  have skip: "\<forall>v. \<not> under_budget (cube v) \<longrightarrow> update throws v = (Returned, v)"
    by (simp add: update_skipped)
  have guard: "\<forall>v::('bg, 'fog) world. under_budget (cube v) =
      (frames_const (cube v) = Infinity
       \<or> js_less (real (count (cube v))) (frames_const (cube v)))"
    by (simp add: under_budget_def)
  show ?thesis
    by (intro conjI len cnt noop ran guard step mono skip)
qed

theorem frame_budget_exact_witness:
  "length (captured (snd (updates sound_renderer 5 demo_world))) = 2 \<and>
   count (cube (snd (updates sound_renderer 5 demo_world))) = 2 \<and>
   updates sound_renderer 3 (snd (updates sound_renderer 5 demo_world))
     = (Returned, snd (updates sound_renderer 5 demo_world))"
proof -
  have a: "\<forall>past view. \<not> (sound_renderer :: (string, string) renderer) past view"
    by (simp add: sound_renderer_def)
  have b: "frames_const (cube demo_world) = Num (real 2)"
    by (simp add: demo_world_eq)
  have c: "count (cube demo_world) = 0"
    by (simp add: demo_world_eq)
  have d: "(2::nat) \<le> 5"
    by simp
  have e: "length (captured demo_world) = 0"
    by (simp add: demo_world_eq)
  note t = frame_budget_exact [OF a b c d, of 3]
  have t1: "length (captured (snd (updates sound_renderer 5 demo_world)))
      = length (captured demo_world) + 2"
    using t by (rule conjunct1)
  have t2: "count (cube (snd (updates sound_renderer 5 demo_world))) = 2"
    using t by blast
  have t3: "updates sound_renderer 3 (snd (updates sound_renderer 5 demo_world))
     = (Returned, snd (updates sound_renderer 5 demo_world))"
    using t by blast
  show ?thesis
    using t1 t2 t3 e by simp
qed

lemma update_set_params_frames:
  "update throws (set_params_frames f w) =
     (fst (update throws w), set_params_frames f (snd (update throws w)))"
  by (simp add: update_def set_params_frames_def under_budget_def Let_def)

lemma update_reads_params:
  assumes "under_budget (cube w)"
    and "\<not> throws (captured w)
          ((scene w)\<lparr>scene_background := or_else e (scene_background (scene w)),
                      scene_fog := or_else g (scene_fog (scene w))\<rparr>, False)"
  shows "captured (snd (update throws (set_params_fog g (set_params_envMap e w)))) =
     captured w @ [((scene w)\<lparr>scene_background := or_else e (scene_background (scene w)),
                                scene_fog := or_else g (scene_fog (scene w))\<rparr>, False)]"
  using assms
  by (simp add: update_def set_params_fog_def set_params_envMap_def under_budget_def Let_def)

text \<open>
  C9: the budget is the value destructured at construction. Assigning to
  \<^verbatim>\<open>params.frames\<close> afterwards changes nothing of what \<^verbatim>\<open>update()\<close> does: it commutes
  with the assignment. The current \<^verbatim>\<open>params.envMap\<close> and \<^verbatim>\<open>params.fog\<close> are read by
  every capturing call: the renderer sees them as the background and the fog of the scene
  (the scene's own values where they are undefined).
\<close>

theorem frames_fixed_params_read:
  fixes throws :: "('bg, 'fog) renderer"
  shows "frames_const (cube (CubeCamera sc props)) = default_to Infinity (frames props)
    \<and> frames_const (cube (set_params_frames f w)) = frames_const (cube w)
    \<and> update throws (set_params_frames f w) =
        (fst (update throws w), set_params_frames f (snd (update throws w)))
    \<and> (under_budget (cube w) \<longrightarrow>
        \<not> throws (captured w)
          ((scene w)\<lparr>scene_background := or_else e (scene_background (scene w)),
                      scene_fog := or_else g (scene_fog (scene w))\<rparr>, False) \<longrightarrow>
        captured (snd (update throws (set_params_fog g (set_params_envMap e w)))) =
          captured w @
            [((scene w)\<lparr>scene_background := or_else e (scene_background (scene w)),
                         scene_fog := or_else g (scene_fog (scene w))\<rparr>, False)])"
proof (intro conjI impI)
  show "frames_const (cube (CubeCamera sc props)) = default_to Infinity (frames props)"
    by (simp add: CubeCamera_def Let_def)
  show "frames_const (cube (set_params_frames f w)) = frames_const (cube w)"
    by (simp add: set_params_frames_def)
  show "update throws (set_params_frames f w) =
        (fst (update throws w), set_params_frames f (snd (update throws w)))"
    by (rule update_set_params_frames)
next
  assume "under_budget (cube w)"
    and "\<not> throws (captured w)
          ((scene w)\<lparr>scene_background := or_else e (scene_background (scene w)),
                      scene_fog := or_else g (scene_fog (scene w))\<rparr>, False)"
  then show "captured (snd (update throws (set_params_fog g (set_params_envMap e w)))) =
          captured w @
            [((scene w)\<lparr>scene_background := or_else e (scene_background (scene w)),
                         scene_fog := or_else g (scene_fog (scene w))\<rparr>, False)]"
    by (rule update_reads_params)
qed

theorem frames_fixed_params_read_witness:
  "fst (update sound_renderer (set_params_frames (Some (Num 0)) demo_world)) = Returned \<and>
   count (cube (snd (update sound_renderer (set_params_frames (Some (Num 0)) demo_world)))) = 1 \<and>
   frames (params (cube (snd (update sound_renderer
      (set_params_frames (Some (Num 0)) demo_world))))) = Some (Num 0) \<and>
   captured (snd (update sound_renderer
      (set_params_fog (Some ''mist'') (set_params_envMap (Some ''night'') demo_world)))) =
     [(\<lparr>scene_fog = Some ''mist'', scene_background = Some ''night''\<rparr>, False)]"
proof -
  have u: "update sound_renderer demo_world =
     (Returned, demo_world\<lparr>cube := (cube demo_world)\<lparr>count := 1\<rparr>,
        captured := [(\<lparr>scene_fog = Some ''captureFog'', scene_background = Some ''studio''\<rparr>, False)]\<rparr>)"
    by (simp add: demo_world_eq update_def under_budget_def sound_renderer_def Let_def)
  have b: "under_budget (cube demo_world)"
    by (simp add: demo_world_eq under_budget_def)
  have n: "\<not> sound_renderer (captured demo_world)
          ((scene demo_world)\<lparr>scene_background :=
               or_else (Some ''night'') (scene_background (scene demo_world)),
             scene_fog := or_else (Some ''mist'') (scene_fog (scene demo_world))\<rparr>, False)"
    by (simp add: sound_renderer_def)
  note t = frames_fixed_params_read [where sc = demo_scene and props = demo_props
      and f = "Some (Num 0)" and w = demo_world and throws = sound_renderer
      and e = "Some ''night''" and g = "Some ''mist''"]
  have t3: "update sound_renderer (set_params_frames (Some (Num 0)) demo_world) =
        (fst (update sound_renderer demo_world),
         set_params_frames (Some (Num 0)) (snd (update sound_renderer demo_world)))"
    using t by blast
  have t4: "captured (snd (update sound_renderer
      (set_params_fog (Some ''mist'') (set_params_envMap (Some ''night'') demo_world)))) =
          captured demo_world @
            [((scene demo_world)\<lparr>scene_background :=
                 or_else (Some ''night'') (scene_background (scene demo_world)),
               scene_fog := or_else (Some ''mist'') (scene_fog (scene demo_world))\<rparr>, False)]"
    using t b n by blast
  show ?thesis
    unfolding t3 t4 u by (simp add: set_params_frames_def demo_world_eq)
qed

section \<open>Properties of Fisheye\<close>

text \<open>
  The matrix taken for \<^verbatim>\<open>projectionMatrixInverse\<close> undoes the projection matrix, and
  the other way round, whenever the frustum is not degenerate.
\<close>

lemma unproject_scalar:
  fixes d s v :: real
  assumes "d \<noteq> 0"
  shows "d / 2 * (2 * v / d - s / d) + s / 2 = v"
    and "2 * (d / 2 * v + s / 2) / d - s / d = v"
    and "- d / 2 * (- (2 * v / d) - s / d) - s / 2 = v"
    and "- (2 * (- d / 2 * v - s / 2) / d) - s / d = v"
  using assms by (simp_all add: field_simps)

lemma applyMatrix4_makeOrthographic:
  "applyMatrix4 (Vector3 x y z) (makeOrthographic l r t b n f) =
     Vector3 (2 * x / (r - l) - (r + l) / (r - l))
             (2 * y / (t - b) - (t + b) / (t - b))
             (- (2 * z / (f - n)) - (f + n) / (f - n))"
  by (simp add: makeOrthographic_def Let_def)

lemma applyMatrix4_orthographicInverse:
  "applyMatrix4 (Vector3 x y z) (orthographicInverse l r t b n f) =
     Vector3 ((r - l) / 2 * x + (r + l) / 2)
             ((t - b) / 2 * y + (t + b) / 2)
             (- (f - n) / 2 * z - (f + n) / 2)"
  by (simp add: orthographicInverse_def) (simp add: field_simps)

lemma orthographicInverse_inverts:
  assumes "l \<noteq> r" "b \<noteq> t" "n \<noteq> f"
  shows "applyMatrix4 (applyMatrix4 (Vector3 x y z) (makeOrthographic l r t b n f))
           (orthographicInverse l r t b n f) = Vector3 x y z"
    and "applyMatrix4 (applyMatrix4 (Vector3 x y z) (orthographicInverse l r t b n f))
           (makeOrthographic l r t b n f) = Vector3 x y z"
proof -
  have d: "r - l \<noteq> 0" "t - b \<noteq> 0" "f - n \<noteq> 0"
    using assms by simp_all
  show "applyMatrix4 (applyMatrix4 (Vector3 x y z) (makeOrthographic l r t b n f))
           (orthographicInverse l r t b n f) = Vector3 x y z"
    unfolding applyMatrix4_makeOrthographic applyMatrix4_orthographicInverse
      unproject_scalar(1) [OF d(1)] unproject_scalar(1) [OF d(2)] unproject_scalar(3) [OF d(3)] ..
  show "applyMatrix4 (applyMatrix4 (Vector3 x y z) (orthographicInverse l r t b n f))
           (makeOrthographic l r t b n f) = Vector3 x y z"
    unfolding applyMatrix4_makeOrthographic applyMatrix4_orthographicInverse
      unproject_scalar(2) [OF d(1)] unproject_scalar(2) [OF d(2)] unproject_scalar(4) [OF d(3)] ..
qed

lemma sqrt_1000000: "sqrt 1000000 = (1000::real)"
proof -
  have "sqrt ((1000::real)\<^sup>2) = 1000" by (simp del: power2_eq_square)
  then show ?thesis by simp
qed

text \<open>
  C3: after \<^verbatim>\<open>onResize(w, h)\<close> the orthographic camera has the bounds \<open>-w/2\<close>, \<open>w/2\<close>,
  \<open>h/2\<close>, \<open>-h/2\<close> at zoom 100, and the scale of the projection sphere and the radius of
  the cached intersection sphere are both \<open>(sqrt (w*w + h*h) / 100) * (0.5 + zoom/2)\<close>;
  for 800 by 600 that is 5 at zoom 0 and 10 at zoom 1. It holds for every \<open>w\<close>, \<open>h\<close> and
  zoom, in particular for positive sizes and a zoom in \<open>[0, 1]\<close>.
\<close>

theorem onResize_bounds_radius:
  "oc_left (orthoCamera (onResize w h f)) = - w / 2
 \<and> oc_right (orthoCamera (onResize w h f)) = w / 2
 \<and> oc_top (orthoCamera (onResize w h f)) = h / 2
 \<and> oc_bottom (orthoCamera (onResize w h f)) = - h / 2
 \<and> oc_zoom (orthoCamera (onResize w h f)) = 100
 \<and> oc_projectionMatrix (orthoCamera (onResize w h f)) =
      makeOrthographic (- (w / 200)) (w / 200) (h / 200) (- (h / 200))
        (oc_near (orthoCamera f)) (oc_far (orthoCamera f))
 \<and> mesh_scale (sphereMesh (onResize w h f)) =
      Vector3 ((sqrt (w * w + h * h) / 100) * (1 / 2 + zoom f / 2))
              ((sqrt (w * w + h * h) / 100) * (1 / 2 + zoom f / 2))
              ((sqrt (w * w + h * h) / 100) * (1 / 2 + zoom f / 2))
 \<and> radius (temp_sphere (temp (onResize w h f))) =
      (sqrt (w * w + h * h) / 100) * (1 / 2 + zoom f / 2)
 \<and> radius (temp_sphere (temp (onResize 800 600 (f\<lparr>zoom := 0\<rparr>)))) = 5
 \<and> radius (temp_sphere (temp (onResize 800 600 (f\<lparr>zoom := 1\<rparr>)))) = 10"
  by (simp add: onResize_def Let_def updateProjectionMatrix_def sqrt_1000000)

lemma demo_fisheye_target:
  "renderTarget (fst demo_fisheye) = \<lparr>rt_id = 0, width = 896, isRenderTargetTexture = False\<rparr>"
  "snd demo_fisheye = \<lparr>targets_created = 1, events = [TargetCreated 0 896]\<rparr>"
  by (simp_all add: demo_fisheye_def new_Fisheye_def no_props_def gl0_def createRenderTarget_def
        onResize_def Let_def)

text \<open>
  C7: \<^verbatim>\<open>updateResolution(r)\<close> with \<open>r\<close> equal to the resolution of the current render
  target returns at once: the instance and the engine state are unchanged, so nothing is
  disposed or created and the render target is the same object.
\<close>

theorem updateResolution_unchanged:
  "res = width (renderTarget this) \<Longrightarrow> updateResolution res (this, g) = (this, g)"
  by (simp add: updateResolution_def)

theorem updateResolution_unchanged_witness:
  "updateResolution 896 demo_fisheye = demo_fisheye \<and>
   events (snd (updateResolution 896 demo_fisheye)) = [TargetCreated 0 896]"
proof -
  have w: "896 = width (renderTarget (fst demo_fisheye))"
    by (simp add: demo_fisheye_target)
  have "updateResolution 896 (fst demo_fisheye, snd demo_fisheye) = (fst demo_fisheye, snd demo_fisheye)"
    using w by (rule updateResolution_unchanged)
  then have u: "updateResolution 896 demo_fisheye = demo_fisheye"
    by simp
  show ?thesis
    unfolding u by (simp add: demo_fisheye_target)
qed

lemma updateResolution_changed:
  assumes "res \<noteq> width (renderTarget this)"
  shows "updateResolution res (this, g) =
    (this\<lparr>renderTarget := \<lparr>rt_id = targets_created g, width = res, isRenderTargetTexture = False\<rparr>,
          cubeCamera := (cubeCamera this)\<lparr>cc_renderTarget :=
             \<lparr>rt_id = targets_created g, width = res, isRenderTargetTexture = False\<rparr>\<rparr>,
          sphereMesh := (sphereMesh this)\<lparr>material :=
             \<lparr>material_envMap = TextureOf (targets_created g),
              material_version = material_version (material (sphereMesh this)) + 1\<rparr>\<rparr>\<rparr>,
     g\<lparr>targets_created := targets_created g + 1,
       events := events g @ [TargetDisposed (rt_id (renderTarget this)),
                             TargetCreated (targets_created g) res]\<rparr>)"
  using assms
  by (simp add: updateResolution_def dispose_def createRenderTarget_def Let_def)

lemma texture_bound_new: "texture_bound (fst (new_Fisheye props g))"
  by (simp add: texture_bound_def new_Fisheye_def createRenderTarget_def onResize_def
      new_CubeCamera_def Let_def)

lemma texture_bound_updateResolution:
  "texture_bound (fst st) \<Longrightarrow> texture_bound (fst (updateResolution res st))"
  by (cases st) (simp add: texture_bound_def updateResolution_def dispose_def
      createRenderTarget_def Let_def)

lemma texture_bound_onResize: "texture_bound (onResize w h this) = texture_bound this"
  by (simp add: texture_bound_def onResize_def Let_def)

lemma texture_bound_render:
  "texture_bound (fst (snd (render decompose throws sc m st))) = texture_bound (fst st)"
  by (simp add: texture_bound_def render_def Let_def split: prod.splits)

lemma texture_bound_compute:
  "texture_bound (snd (computeRaycastRayDirection rc p this)) = texture_bound this"
  by (simp add: texture_bound_def computeRaycastRayDirection_def Let_def split: option.splits)

lemma texture_bound_perform:
  "texture_bound (fst st) \<Longrightarrow> texture_bound (fst (perform decompose throws c st))"
  by (cases c)
     (simp_all add: texture_bound_updateResolution texture_bound_onResize texture_bound_render
        texture_bound_compute, simp_all add: texture_bound_def)

lemma texture_bound_perform_all:
  "texture_bound (fst st) \<Longrightarrow> texture_bound (fst (perform_all decompose throws cs st))"
  by (induction cs arbitrary: st) (simp_all add: texture_bound_perform)

text \<open>
  C6: \<^verbatim>\<open>updateResolution(r)\<close> with \<open>r\<close> different from the resolution of the current
  render target asks the engine for exactly two things, in this order: dispose the
  previous render target, create one of resolution \<open>r\<close>. Afterwards the instance, the cube
  camera and (through its texture) the material of the sphere refer to the new target,
  and the material's version is incremented. The capture camera and the material refer
  to the instance's render target after construction and after every sequence of calls.
\<close>

theorem updateResolution_swaps_target:
  assumes "res \<noteq> width (renderTarget this)"
  shows "events (snd (updateResolution res (this, g))) =
           events g @ [TargetDisposed (rt_id (renderTarget this)),
                       TargetCreated (targets_created g) res]
    \<and> renderTarget (fst (updateResolution res (this, g))) =
           \<lparr>rt_id = targets_created g, width = res, isRenderTargetTexture = False\<rparr>
    \<and> cc_renderTarget (cubeCamera (fst (updateResolution res (this, g)))) =
           renderTarget (fst (updateResolution res (this, g)))
    \<and> material_envMap (material (sphereMesh (fst (updateResolution res (this, g))))) =
           TextureOf (rt_id (renderTarget (fst (updateResolution res (this, g)))))
    \<and> material_version (material (sphereMesh (fst (updateResolution res (this, g))))) =
           material_version (material (sphereMesh this)) + 1
    \<and> texture_bound (fst (updateResolution res (this, g)))
    \<and> texture_bound (fst (new_Fisheye props g'))
    \<and> texture_bound (fst (perform_all decompose throws cs (new_Fisheye props g')))"
  using assms
  by (simp add: updateResolution_changed texture_bound_def texture_bound_new [unfolded texture_bound_def]
      texture_bound_perform_all [OF texture_bound_new, unfolded texture_bound_def])

theorem updateResolution_swaps_target_witness:
  "events (snd (updateResolution 512 demo_fisheye)) =
      [TargetCreated 0 896, TargetDisposed 0, TargetCreated 1 512]
   \<and> renderTarget (fst (updateResolution 512 demo_fisheye)) =
       \<lparr>rt_id = 1, width = 512, isRenderTargetTexture = False\<rparr>
   \<and> cc_renderTarget (cubeCamera (fst (updateResolution 512 demo_fisheye))) =
       \<lparr>rt_id = 1, width = 512, isRenderTargetTexture = False\<rparr>
   \<and> material_envMap (material (sphereMesh (fst (updateResolution 512 demo_fisheye)))) =
       TextureOf 1"
proof -
  have w: "512 \<noteq> width (renderTarget (fst demo_fisheye))"
    by (simp add: demo_fisheye_target)
  have t: "events (snd (updateResolution 512 demo_fisheye)) =
           events (snd demo_fisheye) @ [TargetDisposed (rt_id (renderTarget (fst demo_fisheye))),
                       TargetCreated (targets_created (snd demo_fisheye)) 512]
    \<and> renderTarget (fst (updateResolution 512 demo_fisheye)) =
           \<lparr>rt_id = targets_created (snd demo_fisheye), width = 512, isRenderTargetTexture = False\<rparr>
    \<and> cc_renderTarget (cubeCamera (fst (updateResolution 512 demo_fisheye))) =
           renderTarget (fst (updateResolution 512 demo_fisheye))
    \<and> material_envMap (material (sphereMesh (fst (updateResolution 512 demo_fisheye)))) =
           TextureOf (rt_id (renderTarget (fst (updateResolution 512 demo_fisheye))))"
    using updateResolution_swaps_target [OF w, where g = "snd demo_fisheye" and props = no_props
        and g' = gl0 and decompose = decomposed and throws = gl_sound and cs = "[]"]
    by simp
  show ?thesis
    using t by (simp add: demo_fisheye_target)
qed

lemma lens_render: "lens (fst (snd (render decompose throws sc m (this, g)))) = lens this"
  by (simp add: lens_def render_def Let_def split: prod.splits)

lemma lens_compute: "lens (snd (computeRaycastRayDirection rc p this)) = lens this"
  by (simp add: lens_def computeRaycastRayDirection_def Let_def split: option.splits)

lemma lens_updateResolution: "lens (fst (updateResolution res (this, g))) = lens this"
  by (simp add: lens_def updateResolution_def dispose_def createRenderTarget_def Let_def)

lemma zoom_compute:
  "computeRaycastRayDirection rc p (this\<lparr>zoom := z\<rparr>) =
      (fst (computeRaycastRayDirection rc p this),
       (snd (computeRaycastRayDirection rc p this))\<lparr>zoom := z\<rparr>)"
  by (simp add: computeRaycastRayDirection_def Let_def split: option.splits)

lemma zoom_render:
  "render decompose throws sc m (this\<lparr>zoom := z\<rparr>, g) =
      (fst (render decompose throws sc m (this, g)),
       (fst (snd (render decompose throws sc m (this, g))))\<lparr>zoom := z\<rparr>,
       snd (snd (render decompose throws sc m (this, g))))"
  by (simp add: render_def Let_def split: prod.splits)

lemma zoom_updateResolution:
  "updateResolution res (this\<lparr>zoom := z\<rparr>, g) =
      ((fst (updateResolution res (this, g)))\<lparr>zoom := z\<rparr>, snd (updateResolution res (this, g)))"
  by (simp add: updateResolution_def dispose_def createRenderTarget_def Let_def)

text \<open>
  C10: assigning to \<^verbatim>\<open>zoom\<close> changes neither the scale of the sphere nor the cached
  radius; \<^verbatim>\<open>computeRaycastRayDirection\<close>, \<^verbatim>\<open>render\<close> and \<^verbatim>\<open>updateResolution\<close> do not
  read the field (they commute with the assignment) and leave scale and radius as they
  are. The next \<^verbatim>\<open>onResize\<close> computes both from the new zoom.
\<close>

theorem zoom_assignment_deferred:
  "lens (this\<lparr>zoom := z\<rparr>) = lens this
 \<and> computeRaycastRayDirection rc p (this\<lparr>zoom := z\<rparr>) =
      (fst (computeRaycastRayDirection rc p this),
       (snd (computeRaycastRayDirection rc p this))\<lparr>zoom := z\<rparr>)
 \<and> render decompose throws sc m (this\<lparr>zoom := z\<rparr>, g) =
      (fst (render decompose throws sc m (this, g)),
       (fst (snd (render decompose throws sc m (this, g))))\<lparr>zoom := z\<rparr>,
       snd (snd (render decompose throws sc m (this, g))))
 \<and> updateResolution res (this\<lparr>zoom := z\<rparr>, g) =
      ((fst (updateResolution res (this, g)))\<lparr>zoom := z\<rparr>, snd (updateResolution res (this, g)))
 \<and> lens (fst (snd (render decompose throws sc m (this, g)))) = lens this
 \<and> lens (snd (computeRaycastRayDirection rc p this)) = lens this
 \<and> lens (fst (updateResolution res (this, g))) = lens this
 \<and> lens (onResize w h (this\<lparr>zoom := z\<rparr>)) =
      (Vector3 ((sqrt (w * w + h * h) / 100) * (1 / 2 + z / 2))
               ((sqrt (w * w + h * h) / 100) * (1 / 2 + z / 2))
               ((sqrt (w * w + h * h) / 100) * (1 / 2 + z / 2)),
       (sqrt (w * w + h * h) / 100) * (1 / 2 + z / 2))"
proof (intro conjI)
  show "lens (this\<lparr>zoom := z\<rparr>) = lens this"
    by (simp add: lens_def)
  show "lens (onResize w h (this\<lparr>zoom := z\<rparr>)) =
      (Vector3 ((sqrt (w * w + h * h) / 100) * (1 / 2 + z / 2))
               ((sqrt (w * w + h * h) / 100) * (1 / 2 + z / 2))
               ((sqrt (w * w + h * h) / 100) * (1 / 2 + z / 2)),
       (sqrt (w * w + h * h) / 100) * (1 / 2 + z / 2))"
    by (simp add: lens_def onResize_def Let_def)
qed (rule zoom_compute zoom_render zoom_updateResolution lens_render lens_compute
      lens_updateResolution)+

lemma sqrt_250000: "sqrt 250000 = (500::real)"
proof -
  have "sqrt ((500::real)\<^sup>2) = 500" by (simp del: power2_eq_square)
  then show ?thesis by simp
qed

lemma normalizeV_unit_z: "normalizeV (Vector3 0 0 (- 1)) = Vector3 0 0 (- 1)"
  by (simp add: normalizeV_def)

lemma demo_resized_camera:
  "oc_projectionMatrixInverse (orthoCamera demo_resized) =
     Matrix4 (3 / 2) 0 0 0  0 2 0 0  0 0 (- (19999 / 20)) 0  0 0 (- (20001 / 20)) 1"
  "oc_matrixWorld (orthoCamera demo_resized) = identity4"
  "oc_near (orthoCamera demo_resized) = 1 / 10"
  "oc_far (orthoCamera demo_resized) = 2000"
  "temp_sphere (temp demo_resized) = \<lparr>center = Vector3 0 0 0, radius = 5 / 2\<rparr>"
  by (simp_all add: demo_resized_def demo_fisheye_def new_Fisheye_def no_props_def gl0_def
      createRenderTarget_def onResize_def updateProjectionMatrix_def new_OrthographicCamera_def
      orthographicInverse_def Let_def sqrt_250000)

lemma demo_setFromCamera:
  "setFromCamera (Vector2 2 0) (orthoCamera demo_resized) demo_raycaster =
     \<lparr>ray = \<lparr>origin = Vector3 3 0 0, direction = Vector3 0 0 (- 1)\<rparr>\<rparr>"
  by (simp add: demo_resized_camera demo_raycaster_def identity4_def normalizeV_unit_z)

lemma demo_miss:
  "intersectSphere (ray (setFromCamera (Vector2 2 0) (orthoCamera demo_resized) demo_raycaster))
     (temp_sphere (temp demo_resized)) = None"
  unfolding demo_setFromCamera demo_resized_camera
  by (simp add: intersectSphere_def Let_def)

lemma compute_on_miss:
  "intersectSphere (ray (setFromCamera pointer (orthoCamera this) raycaster))
     (temp_sphere (temp this)) = None \<Longrightarrow>
   computeRaycastRayDirection raycaster pointer this =
     (setFromCamera pointer (orthoCamera this) raycaster, this)"
  by (simp add: computeRaycastRayDirection_def Let_def)

text \<open>
  C2, as the code has it. \<^verbatim>\<open>raycaster.setFromCamera(pointer, orthoC)\<close> runs before the
  intersection test, so on a miss the raycaster no longer holds its earlier ray: it holds
  the orthographic camera's ray through the pointer. Here the instance is resized to 300
  by 400 (radius 5/2) and the pointer is at \<open>(2, 0)\<close>, beyond the right edge.
\<close>

theorem miss_overwrites_ray:
  "intersectSphere (ray (setFromCamera (Vector2 2 0) (orthoCamera demo_resized) demo_raycaster))
     (temp_sphere (temp demo_resized)) = None
   \<and> ray demo_raycaster = \<lparr>origin = Vector3 0 1 2, direction = Vector3 1 0 0\<rparr>
   \<and> ray (fst (computeRaycastRayDirection demo_raycaster (Vector2 2 0) demo_resized)) =
       \<lparr>origin = Vector3 3 0 0, direction = Vector3 0 0 (- 1)\<rparr>"
proof (intro conjI)
  show "ray demo_raycaster = \<lparr>origin = Vector3 0 1 2, direction = Vector3 1 0 0\<rparr>"
    by (simp add: demo_raycaster_def)
  show "ray (fst (computeRaycastRayDirection demo_raycaster (Vector2 2 0) demo_resized)) =
       \<lparr>origin = Vector3 3 0 0, direction = Vector3 0 0 (- 1)\<rparr>"
    unfolding compute_on_miss [OF demo_miss] demo_setFromCamera by simp
qed (rule demo_miss)

text \<open>
  C2 (amended): for every pointer whose orthographic-camera ray does not intersect the
  cached intersection sphere, \<^verbatim>\<open>computeRaycastRayDirection\<close> returns right after the
  test: the raycaster's ray is the orthographic camera's ray through the pointer, as
  \<^verbatim>\<open>setFromCamera\<close> set it, and the instance is unchanged.
\<close>

theorem miss_returns_ortho_ray:
  "intersectSphere (ray (setFromCamera pointer (orthoCamera this) raycaster))
     (temp_sphere (temp this)) = None \<Longrightarrow>
   computeRaycastRayDirection raycaster pointer this =
     (setFromCamera pointer (orthoCamera this) raycaster, this)"
  by (rule compute_on_miss)

theorem miss_returns_ortho_ray_witness:
  "computeRaycastRayDirection demo_raycaster (Vector2 2 0) demo_resized =
     (\<lparr>ray = \<lparr>origin = Vector3 3 0 0, direction = Vector3 0 0 (- 1)\<rparr>\<rparr>, demo_resized)"
  unfolding miss_returns_ortho_ray [OF demo_miss] demo_setFromCamera by simp

text \<open>
  On a rendered instance a pointer inside the viewport (both coordinates in \<open>[-1, 1]\<close>)
  never misses once the instance is resized to a viewport of positive width and height
  with a zoom of at least 0: the sphere's
  radius is at least half the diagonal of the frustum. A miss needs a pointer outside
  the viewport, as in the example above, or a negative zoom.
\<close>

lemma pointer_ray:
  assumes ok: "rig_ok this"
    and mw: "oc_matrixWorld (orthoCamera this) =
             compose (oc_position (orthoCamera this)) (oc_quaternion (orthoCamera this))
                     (oc_scale (orthoCamera this))"
  shows "ray (setFromCamera (Vector2 x y) (orthoCamera (onResize w h this)) rc) =
           \<lparr>origin = Vector3 (x * (w / 200)) (y * (h / 200)) 100,
            direction = Vector3 0 0 (- 1)\<rparr>"
proof -
  let ?c = "orthoCamera this"
  have nf: "oc_near ?c = 1 / 10" "oc_far ?c = 2000"
    using ok by (simp_all add: rig_ok_def)
  have pos: "oc_quaternion ?c = Quaternion 0 0 0 1" "oc_scale ?c = Vector3 1 1 1"
      "oc_position ?c = Vector3 0 0 100"
    using ok by (simp_all add: rig_ok_def quaternion_identity_def)
  have mw': "oc_matrixWorld ?c = Matrix4 1 0 0 0  0 1 0 0  0 0 1 0  0 0 100 1"
    unfolding mw pos by (simp add: Let_def)
  show ?thesis
    by (simp add: onResize_def updateProjectionMatrix_def orthographicInverse_def Let_def
        nf mw' normalizeV_unit_z)
qed

lemma pointer_in_viewport_hits:
  assumes wh: "0 < w" "0 < h"
    and ok: "rig_ok this"
    and mw: "oc_matrixWorld (orthoCamera this) =
             compose (oc_position (orthoCamera this)) (oc_quaternion (orthoCamera this))
                     (oc_scale (orthoCamera this))"
    and z: "0 \<le> zoom this"
    and x: "\<bar>x\<bar> \<le> 1" and y: "\<bar>y\<bar> \<le> 1"
  shows "intersectSphere (ray (setFromCamera (Vector2 x y) (orthoCamera (onResize w h this)) rc))
           (temp_sphere (temp (onResize w h this))) \<noteq> None"
proof -
  have c0: "center (temp_sphere (temp this)) = Vector3 0 0 0"
    using ok by (simp add: rig_ok_def)
  define R where "R = sqrt (w * w + h * h) / 100 * (1 / 2 + zoom this / 2)"
  have sph: "temp_sphere (temp (onResize w h this)) = \<lparr>center = Vector3 0 0 0, radius = R\<rparr>"
    using c0 by (simp add: onResize_def Let_def R_def)
  have xx: "x * x \<le> 1" and yy: "y * y \<le> 1"
    using x y by (simp_all add: abs_le_square_iff [of _ 1, simplified] power2_eq_square)
  have s2: "sqrt (w * w + h * h) * sqrt (w * w + h * h) = w * w + h * h"
    by simp
  have "(x * (w / 200)) * (x * (w / 200)) + (y * (h / 200)) * (y * (h / 200))
        = (x * x) * (w * w) / 40000 + (y * y) * (h * h) / 40000"
    by (simp add: field_simps)
  also have "\<dots> \<le> 1 * (w * w) / 40000 + 1 * (h * h) / 40000"
    using xx yy by (intro add_mono divide_right_mono mult_right_mono) simp_all
  also have "\<dots> = (sqrt (w * w + h * h) / 100 * (1 / 2)) * (sqrt (w * w + h * h) / 100 * (1 / 2))"
    using s2 by (simp add: field_simps)
  also have "\<dots> \<le> R * R"
    unfolding R_def using z
    by (intro mult_mono mult_left_mono) (simp_all add: field_simps)
  finally have d2: "(x * (w / 200)) * (x * (w / 200)) + (y * (h / 200)) * (y * (h / 200)) \<le> R * R" .
  have thc: "0 \<le> sqrt (R * R - ((x * (w / 200)) * (x * (w / 200)) + (y * (h / 200)) * (y * (h / 200))))"
    using d2 by simp
  define D where "D = (x * (w / 200)) * (x * (w / 200)) + (y * (h / 200)) * (y * (h / 200))"
  have dv: "dot (sub (Vector3 0 0 0) (Vector3 (x * (w / 200)) (y * (h / 200)) 100))
                (sub (Vector3 0 0 0) (Vector3 (x * (w / 200)) (y * (h / 200)) 100))
            - 100 * 100 = D"
    unfolding D_def by simp
  have tca: "dot (sub (Vector3 0 0 0) (Vector3 (x * (w / 200)) (y * (h / 200)) 100))
                 (Vector3 0 0 (- 1)) = 100"
    by simp
  have le: "\<not> R * R < D"
    using d2 unfolding D_def by simp
  have "0 \<le> sqrt (R * R - D)"
    using thc unfolding D_def .
  then have nn: "\<not> 100 + sqrt (R * R - D) < 0"
    by linarith
  show ?thesis
    unfolding pointer_ray [OF ok mw] sph intersectSphere_def Let_def
    by (simp only: Ray.simps Sphere.simps tca dv le nn if_False) simp
qed

lemma setFromEuler_yaw: "setFromEuler (Euler 0 pi 0) = Quaternion 0 1 0 0"
  by (simp add: Let_def)

lemma yaw_is_half_turn:
  "applyQuaternion (Vector3 x y z) (Quaternion 0 1 0 0) = Vector3 (- x) y (- z)"
  by (simp add: Let_def)

lemma temp_e_new: "temp_e (temp (fst (new_Fisheye props g))) = Euler 0 pi 0"
  by (simp add: new_Fisheye_def createRenderTarget_def onResize_def Let_def)

lemma temp_e_perform:
  "temp_e (temp (fst (perform decompose throws c st))) = temp_e (temp (fst st))"
proof (cases c)
  case (UpdateResolution res)
  then show ?thesis
    by (cases st) (simp add: updateResolution_def dispose_def createRenderTarget_def Let_def)
next
  case (OnResize w h)
  then show ?thesis by (simp add: onResize_def Let_def)
next
  case (Render sc m)
  then show ?thesis by (simp add: render_def Let_def split: prod.splits)
next
  case (ComputeRaycastRayDirection rc p)
  then show ?thesis
    by (simp add: computeRaycastRayDirection_def Let_def split: option.splits)
qed simp_all

lemma temp_e_perform_all:
  "temp_e (temp (fst (perform_all decompose throws cs st))) = temp_e (temp (fst st))"
  by (induction cs arbitrary: st) (simp_all add: temp_e_perform)

lemma render_pose:
  assumes "temp_e (temp this) = Euler 0 pi 0"
  shows "cc_position (cubeCamera (fst (snd (render decompose throws sc m (this, g))))) =
           fst (decompose m)
       \<and> cc_quaternion (cubeCamera (fst (snd (render decompose throws sc m (this, g))))) =
           multiplyQuaternions (fst (snd (decompose m))) (Quaternion 0 1 0 0)"
proof -
  obtain t r s where d: "decompose m = (t, r, s)"
    by (cases "decompose m") auto
  have y: "setFromEuler (temp_e (temp this)) = Quaternion 0 1 0 0"
    using assms setFromEuler_yaw by simp
  show ?thesis
    by (simp add: render_def Let_def d premultiply_def y del: setFromEuler.simps)
qed

lemma render_events:
  "fst (render decompose throws sc m (this, g)) = Returned \<Longrightarrow>
   events (snd (snd (render decompose throws sc m (this, g)))) =
     events g @ [CubeCaptured sc (cubeCamera (fst (snd (render decompose throws sc m (this, g))))),
                 MeshRendered (sphereMesh (fst (snd (render decompose throws sc m (this, g)))))
                              (orthoCamera (fst (snd (render decompose throws sc m (this, g)))))]"
proof -
  obtain t r s where d: "decompose m = (t, r, s)"
    by (cases "decompose m") auto
  show "fst (render decompose throws sc m (this, g)) = Returned \<Longrightarrow> ?thesis"
    by (simp add: render_def Let_def d del: setFromEuler.simps split: if_splits)
qed

lemma render_events_thrown:
  "fst (render decompose throws sc m (this, g)) = Thrown \<Longrightarrow>
   events (snd (snd (render decompose throws sc m (this, g)))) = events g \<or>
   events (snd (snd (render decompose throws sc m (this, g)))) =
     events g @ [CubeCaptured sc (cubeCamera (fst (snd (render decompose throws sc m (this, g)))))]"
proof -
  obtain t r s where d: "decompose m = (t, r, s)"
    by (cases "decompose m") auto
  show "fst (render decompose throws sc m (this, g)) = Thrown \<Longrightarrow> ?thesis"
    by (simp add: render_def Let_def d del: setFromEuler.simps split: if_splits)
qed

text \<open>
  C8: on an instance that was constructed and then used through its methods,
  \<^verbatim>\<open>render\<close> sets the cube camera's position to the translation of the source camera's
  world matrix and its quaternion to the source rotation times the quaternion of the
  Euler angles \<open>(0, pi, 0)\<close>, which is the half turn about the Y axis. When it returns,
  the engine was asked for exactly the capture of the scene by that cube camera and then
  the drawing of the sphere through the orthographic camera; when a render call throws,
  the sphere was not drawn.
\<close>

theorem render_copies_pose_then_draws:
  fixes decompose :: "'m \<Rightarrow> Vector3 \<times> Quaternion \<times> Vector3"
    and throws :: "'scene gl_renderer"
  assumes "st = perform_all decompose throws cs (new_Fisheye props g0)"
    and "res = render decompose throws sc m st"
  shows "cc_position (cubeCamera (fst (snd res))) = fst (decompose m)
    \<and> cc_quaternion (cubeCamera (fst (snd res))) =
        multiplyQuaternions (fst (snd (decompose m))) (setFromEuler (Euler 0 pi 0))
    \<and> setFromEuler (Euler 0 pi 0) = Quaternion 0 (sin (pi / 2)) 0 (cos (pi / 2))
    \<and> applyQuaternion (Vector3 x y z) (setFromEuler (Euler 0 pi 0)) = Vector3 (- x) y (- z)
    \<and> (fst res = Returned \<longrightarrow>
        events (snd (snd res)) =
          events (snd st) @ [CubeCaptured sc (cubeCamera (fst (snd res))),
                             MeshRendered (sphereMesh (fst (snd res))) (orthoCamera (fst (snd res)))])
    \<and> (fst res = Thrown \<longrightarrow>
        events (snd (snd res)) = events (snd st) \<or>
        events (snd (snd res)) = events (snd st) @ [CubeCaptured sc (cubeCamera (fst (snd res)))])"
proof -
  have e: "temp_e (temp (fst st)) = Euler 0 pi 0"
    unfolding assms(1) by (simp add: temp_e_perform_all temp_e_new)
  have r: "res = render decompose throws sc m (fst st, snd st)"
    using assms(2) by simp
  show ?thesis
    unfolding r setFromEuler_yaw
    using render_pose [OF e, of decompose throws sc m "snd st"]
      render_events [of decompose throws sc m "fst st" "snd st"]
      render_events_thrown [of decompose throws sc m "fst st" "snd st"]
    by (simp add: yaw_is_half_turn del: applyQuaternion.simps)
qed


theorem render_copies_pose_then_draws_witness:
  "fst (render decomposed gl_sound ''scene'' demo_camera demo_fisheye) = Returned
   \<and> cc_position (cubeCamera (fst (snd (render decomposed gl_sound ''scene'' demo_camera
         demo_fisheye)))) = Vector3 1 2 3
   \<and> cc_quaternion (cubeCamera (fst (snd (render decomposed gl_sound ''scene'' demo_camera
         demo_fisheye)))) = Quaternion 0 (4 / 5) 0 (- (3 / 5))
   \<and> length (events (snd (snd (render decomposed gl_sound ''scene'' demo_camera
         demo_fisheye)))) = 3"
proof -
  let ?res = "render decomposed gl_sound ''scene'' demo_camera demo_fisheye"
  have st: "demo_fisheye = perform_all decomposed gl_sound [] (new_Fisheye no_props gl0)"
    by (simp add: demo_fisheye_def)
  note t = render_copies_pose_then_draws [OF st refl, of "''scene''" demo_camera 0 0 0]
  have ret: "fst ?res = Returned"
    by (simp add: render_def Let_def gl_sound_def decomposed_def demo_camera_def
        del: setFromEuler.simps)
  have ev: "events (snd demo_fisheye) = [TargetCreated 0 896]"
    by (simp add: demo_fisheye_def new_Fisheye_def no_props_def gl0_def createRenderTarget_def
        Let_def)
  have p: "cc_position (cubeCamera (fst (snd ?res))) = fst (decomposed demo_camera)"
    using t by blast
  have q: "cc_quaternion (cubeCamera (fst (snd ?res))) =
        multiplyQuaternions (fst (snd (decomposed demo_camera))) (setFromEuler (Euler 0 pi 0))"
    using t by blast
  have y: "setFromEuler (Euler 0 pi 0) = Quaternion 0 (sin (pi / 2)) 0 (cos (pi / 2))"
    using t by blast
  have e: "events (snd (snd ?res)) =
          events (snd demo_fisheye) @ [CubeCaptured ''scene'' (cubeCamera (fst (snd ?res))),
             MeshRendered (sphereMesh (fst (snd ?res))) (orthoCamera (fst (snd ?res)))]"
    using t ret by blast
  show ?thesis
    unfolding p q y e ev using ret by (simp add: decomposed_def demo_camera_def)
qed























lemma radius_after_onResize:
  assumes "0 < w" "0 < h" "0 \<le> zoom this"
  shows "0 < radius (temp_sphere (temp (onResize w h this)))"
proof -
  have "0 < w * w + h * h"
    using assms(1,2) by (simp add: add_pos_pos)
  then have "0 < sqrt (w * w + h * h)"
    by simp
  then show ?thesis
    using assms(3) by (simp add: onResize_def Let_def)
qed











lemma viewport_ok_kept:
  "viewport_ok (fst (snd (render decompose throws sc m (this, g)))) = viewport_ok this"
  "viewport_ok (snd (computeRaycastRayDirection rc p this)) = viewport_ok this"
  "viewport_ok (fst (updateResolution res (this, g))) = viewport_ok this"
  "viewport_ok (this\<lparr>zoom := z\<rparr>) = viewport_ok this"
proof -
  obtain t r s where d: "decompose m = (t, r, s)"
    by (cases "decompose m") auto
  show "viewport_ok (fst (snd (render decompose throws sc m (this, g)))) = viewport_ok this"
    by (simp add: viewport_ok_def render_def Let_def d del: setFromEuler.simps compose.simps)
  show "viewport_ok (snd (computeRaycastRayDirection rc p this)) = viewport_ok this"
    by (simp add: viewport_ok_def computeRaycastRayDirection_def Let_def
        del: compose.simps setFromCamera.simps split: option.splits)
  show "viewport_ok (fst (updateResolution res (this, g))) = viewport_ok this"
    by (simp add: viewport_ok_def updateResolution_def dispose_def createRenderTarget_def Let_def)
  show "viewport_ok (this\<lparr>zoom := z\<rparr>) = viewport_ok this"
    by (simp add: viewport_ok_def)
qed













end
